theory Spec2Isabelle
  imports Main "HOL-Library.Sublist"
begin

section \<open>Data model of \<open>deps_resolver.h\<close>\<close>

text \<open>
  The platform constants \<open>DIR_SEPARATOR\<close> and \<open>PATH_SEPARATOR\<close> come from \<open>pal.h\<close>,
  which is not part of the sources at hand; they are taken as parameters.
\<close>

record pal_t =
  DIR_SEPARATOR :: char
  PATH_SEPARATOR :: char

text \<open>
  Modelled from the spec: \<open>host_mode_t\<close> is declared outside the header. Section 6 of the
  specification lists the host operating modes: muxer-launched host, normal app host and
  embedding-library host. The header itself only tests for \<open>libhost\<close> and \<open>apphost\<close>.
\<close>

datatype host_mode_t = muxer | apphost | libhost

text \<open>
  Modelled from the spec: the bundle collaborator (\<open>bundle::info_t\<close>, \<open>bundle::runner_t\<close>)
  is declared in \<open>bundle/runner.h\<close>. Section 6 describes it as a boolean "running as
  single-file bundle", an extraction directory and a backward-compatibility-mode flag.
\<close>

record bundle_t =
  is_single_file_bundle :: bool
  is_netcoreapp3_compat_mode :: bool
  extraction_path :: string

text \<open>
  Modelled from the spec: \<open>deps_entry_t\<close> and \<open>deps_json_t\<close> are declared in
  \<open>deps_entry.h\<close> and \<open>deps_format.h\<close>. Section 3 gives a Dependency Entry a logical
  name, an asset kind, a relative path, an owning library identity and an optional culture;
  a Dependency Manifest is an ordered sequence of entries, a RID fallback list and its own
  file path, and (section 6) it tells whether its backing file exists and whether it parsed.
\<close>

datatype asset_types = runtime | resources | native

record deps_entry_t =
  asset_name :: string
  asset_type :: asset_types
  relative_path :: string
  library_name :: string
  library_version :: string
  culture :: "string option"

type_synonym rid_fallback_graph_t = "string list"

record deps_json_t =
  deps_file :: string
  file_exists :: bool
  is_valid :: bool
  entries :: "deps_entry_t list"
  rid_fallback_graph :: rid_fallback_graph_t

text \<open>
  Modelled from the spec: \<open>fx_definition_t\<close> (\<open>fx_definition.h\<close>) is a framework layer
  descriptor, a directory and a logical name (section 4.1).
\<close>

record fx_definition_t =
  fx_dir :: string
  fx_name :: string

text \<open>
  Modelled from the spec: \<open>probe_config_t\<close> is declared outside the header. Section 3:
  a base directory, the asset kinds it may resolve, a source kind and a flag telling whether
  resolution through it needs a live existence check.
\<close>

datatype probe_source_t =
  OwnDirectory | AdditionalManifestDirectory | SharedStore | GlobalFallbackCache | BundleVirtual

record probe_config_t =
  probe_dir :: string
  applies_to :: "asset_types list"
  probe_source :: probe_source_t
  needs_existence_check :: bool

record probe_paths_t =
  tpa :: string
  native_dirs :: string
  resources_dirs :: string
  coreclr :: string

record deps_resolved_asset_t =
  asset :: deps_entry_t
  resolved_path :: string

record deps_resolver_t =
  m_fx_definitions :: "fx_definition_t list"
  m_fx_deps :: "deps_json_t list"
  m_app_dir :: string
  m_host_mode :: host_mode_t
  m_managed_app :: string
  m_core_servicing :: string
  m_coreclr_path :: string
  m_additional_deps :: "deps_json_t list"
  m_probes :: "probe_config_t list"
  m_is_framework_dependent :: bool
  m_needs_file_existence_checks :: bool

text \<open>
  Modelled from the spec: \<open>arguments_t\<close> is declared in \<open>args.h\<close>. Section 6 lists the
  launch arguments; the fields below are the ones the constructor reads.
\<close>

record arguments_t =
  host_mode :: host_mode_t
  app_root :: string
  deps_path :: string
  core_servicing :: string
  additional_deps_serialized :: string
  managed_application :: string

text \<open>
  Failures of the model. \<open>EmptyStringBack\<close> is \<open>back()\<close> called on an empty string
  (undefined behaviour in C++); \<open>UnresolvableAsset\<close> is the error kind of section 7.
\<close>

datatype error = EmptyStringBack | UnresolvableAsset

section \<open>\<open>valid\<close>\<close>

text \<open>
  The first loop of \<open>valid\<close>, over the indices of \<open>m_fx_deps\<close>. The result is the message
  assigned to \<open>errors\<close> by the first failing check, or \<open>None\<close> when the loop runs to its end.
\<close>

function valid_fx_deps :: "deps_json_t list \<Rightarrow> nat \<Rightarrow> string option" where
  "valid_fx_deps fx_deps i =
     (if i < length fx_deps then
        (if i \<noteq> 0 \<and> \<not> file_exists (fx_deps ! i) then
           Some (''A fatal error was encountered, missing dependencies manifest at: ''
                 @ deps_file (fx_deps ! i))
         else if \<not> is_valid (fx_deps ! i) then
           Some (''An error occurred while parsing: '' @ deps_file (fx_deps ! i))
         else valid_fx_deps fx_deps (Suc i))
      else None)"
  by pat_completeness auto
termination
  by (relation "measure (\<lambda>(fx_deps, i). length fx_deps - i)") auto

declare valid_fx_deps.simps [simp del]

text \<open>The second loop, a range-for over \<open>m_additional_deps\<close>.\<close>

fun valid_additional_deps :: "deps_json_t list \<Rightarrow> string option" where
  "valid_additional_deps [] = None"
| "valid_additional_deps (additional_deps # rest) =
     (if \<not> is_valid additional_deps then
        Some (''An error occurred while parsing: '' @ deps_file additional_deps)
      else valid_additional_deps rest)"

text \<open>
  \<open>valid\<close> takes the current content of the \<open>errors\<close> out-parameter and returns the
  boolean result together with the new content of \<open>errors\<close>.
\<close>

definition valid :: "deps_resolver_t \<Rightarrow> string \<Rightarrow> bool \<times> string" where
  "valid r errors =
     (case valid_fx_deps (m_fx_deps r) 0 of
        Some msg \<Rightarrow> (False, msg)
      | None \<Rightarrow>
          (case valid_additional_deps (m_additional_deps r) of
             Some msg \<Rightarrow> (False, msg)
           | None \<Rightarrow> (True, [])))"

text \<open>
  Vocabulary for the properties of \<open>valid\<close>: a layer passes when both checks of the loop
  body let it through; the two messages are the strings assigned to \<open>errors\<close>.
\<close>

definition fx_layer_passes :: "deps_json_t list \<Rightarrow> nat \<Rightarrow> bool" where
  "fx_layer_passes fx_deps i =
     ((i = 0 \<or> file_exists (fx_deps ! i)) \<and> is_valid (fx_deps ! i))"

definition missing_manifest_message :: "deps_json_t \<Rightarrow> string" where
  "missing_manifest_message d =
     ''A fatal error was encountered, missing dependencies manifest at: '' @ deps_file d"

definition parse_error_message :: "deps_json_t \<Rightarrow> string" where
  "parse_error_message d = ''An error occurred while parsing: '' @ deps_file d"

section \<open>\<open>get_app_dir\<close>\<close>

text \<open>
  \<open>get_app_dir\<close> returns the new content of \<open>*app_dir\<close>. The bundle collaborator is the
  parameter \<open>b\<close>. The separator step calls \<open>back()\<close> with no emptiness guard; on an empty
  string that is the error \<open>EmptyStringBack\<close>.
\<close>

definition get_app_dir :: "pal_t \<Rightarrow> bundle_t \<Rightarrow> deps_resolver_t \<Rightarrow> error + string" where
  "get_app_dir p b r =
     (if m_host_mode r = libhost then Inr []
      else
        (let app_dir = m_app_dir r;
             app_dir =
               (if m_host_mode r = apphost then
                  (if is_single_file_bundle b then
                     (if is_netcoreapp3_compat_mode b then extraction_path b else app_dir)
                   else app_dir)
                else app_dir)
         in if app_dir = [] then Inl EmptyStringBack
            else if last app_dir \<noteq> DIR_SEPARATOR p then Inr (app_dir @ [DIR_SEPARATOR p])
            else Inr app_dir))"

text \<open>
  Vocabulary for the properties of \<open>get_app_dir\<close>: the selected path, the content of
  \<open>*app_dir\<close> after lines 151 to 162, before the separator step.
\<close>

definition select_app_dir :: "bundle_t \<Rightarrow> deps_resolver_t \<Rightarrow> string" where
  "select_app_dir b r =
     (if m_host_mode r = apphost \<and> is_single_file_bundle b \<and> is_netcoreapp3_compat_mode b
      then extraction_path b
      else m_app_dir r)"

section \<open>The constructor\<close>

text \<open>
  Modelled from the spec: the content of a manifest file and the constructor of
  \<open>deps_json_t\<close> (\<open>deps_format.h\<close>) are not part of the header. A manifest file declares
  entries and its own RID fallback list (section 3). Section 4.1: the root determines the RID
  fallback list used by every subsequently loaded manifest unless the caller supplied one.
  So a manifest object built with no list (\<open>nullptr\<close>) uses the list its own file declares,
  and one built with a list uses that list. The file system is the function \<open>fs\<close> from paths
  to file contents.
\<close>

record deps_json_file_t =
  present :: bool
  well_formed :: bool
  declared_entries :: "deps_entry_t list"
  declared_rid_fallback_graph :: rid_fallback_graph_t

definition new_deps_json_t ::
  "(string \<Rightarrow> deps_json_file_t) \<Rightarrow> bool \<Rightarrow> string \<Rightarrow> rid_fallback_graph_t option
   \<Rightarrow> deps_json_t" where
  "new_deps_json_t fs is_framework_dependent deps_path_arg graph =
     \<lparr> deps_file = deps_path_arg,
       file_exists = present (fs deps_path_arg),
       is_valid = well_formed (fs deps_path_arg),
       entries = declared_entries (fs deps_path_arg),
       rid_fallback_graph =
         (case graph of
            None \<Rightarrow> declared_rid_fallback_graph (fs deps_path_arg)
          | Some g \<Rightarrow> g) \<rparr>"

text \<open>
  Modelled from the spec: \<open>append_path\<close> is a helper declared outside the header. Section
  4.1 places a layer's manifest at \<open><layer_dir>/<layer_name>.deps.<ext>\<close>: the two parts are
  joined by one directory separator.
\<close>

definition append_path :: "pal_t \<Rightarrow> string \<Rightarrow> string \<Rightarrow> string" where
  "append_path p path1 path2 =
     (if path1 \<noteq> [] \<and> last path1 \<noteq> DIR_SEPARATOR p then path1 @ [DIR_SEPARATOR p] @ path2
      else path1 @ path2)"

definition get_fx_deps :: "pal_t \<Rightarrow> string \<Rightarrow> string \<Rightarrow> string" where
  "get_fx_deps p fx_dir_arg fx_name_arg =
     (let fx_deps = fx_dir_arg;
          fx_deps_name = fx_name_arg @ ''.deps.json''
      in append_path p fx_deps fx_deps_name)"

text \<open>Lines 65 to 67: the manifest path of layer \<open>i\<close>.\<close>

definition layer_deps_file ::
  "pal_t \<Rightarrow> arguments_t \<Rightarrow> fx_definition_t list \<Rightarrow> int \<Rightarrow> string" where
  "layer_deps_file p args fx_definitions i =
     (if i = 0 then deps_path args
      else get_fx_deps p (fx_dir (fx_definitions ! nat i)) (fx_name (fx_definitions ! nat i)))"

text \<open>
  The loop of lines 63 to 83, from \<open>i = lowest_framework\<close> down to \<open>0\<close>. The vector
  \<open>m_fx_deps\<close> is filled from its last index to its first; the model builds the same list
  from its tail. The pointer \<open>root_framework_rid_fallback_graph\<close> is an option, \<open>None\<close> for
  \<open>nullptr\<close>. The result is the filled vector and the final value of the pointer.
\<close>

function construct_fx_deps ::
  "pal_t \<Rightarrow> (string \<Rightarrow> deps_json_file_t) \<Rightarrow> arguments_t \<Rightarrow> fx_definition_t list \<Rightarrow> int \<Rightarrow> int
   \<Rightarrow> rid_fallback_graph_t option \<Rightarrow> deps_json_t list
   \<Rightarrow> deps_json_t list \<times> rid_fallback_graph_t option" where
  "construct_fx_deps p fs args fx_definitions lowest_framework i
       root_framework_rid_fallback_graph fx_deps =
     (if i \<ge> 0 then
        (let deps_file_i = layer_deps_file p args fx_definitions i in
         if root_framework_rid_fallback_graph = None \<and> i = lowest_framework then
           (let d = new_deps_json_t fs False deps_file_i None in
            construct_fx_deps p fs args fx_definitions lowest_framework (i - 1)
              (Some (rid_fallback_graph d)) (d # fx_deps))
         else
           construct_fx_deps p fs args fx_definitions lowest_framework (i - 1)
             root_framework_rid_fallback_graph
             (new_deps_json_t fs True deps_file_i root_framework_rid_fallback_graph # fx_deps))
      else (fx_deps, root_framework_rid_fallback_graph))"
  by pat_completeness auto
termination
  by (relation "measure (\<lambda>(p, fs, args, defs, lowest, i, g, acc). nat (i + 1))") auto

declare construct_fx_deps.simps [simp del]

text \<open>
  The constructor. \<open>resolve_additional_deps\<close> and \<open>setup_probe_config\<close> are private members
  declared in the header and defined elsewhere; they are parameters here. The first yields
  the additional manifests from the serialized list and the RID fallback pointer, the second
  the probe configurations and the existence-check flag (section 4.2 and the design notes of
  the specification); neither touches the layer manifests.
\<close>

definition new_deps_resolver_t ::
  "pal_t \<Rightarrow> (string \<Rightarrow> deps_json_file_t)
   \<Rightarrow> (string \<Rightarrow> rid_fallback_graph_t option \<Rightarrow> deps_json_t list)
   \<Rightarrow> (arguments_t \<Rightarrow> deps_resolver_t \<Rightarrow> probe_config_t list \<times> bool)
   \<Rightarrow> arguments_t \<Rightarrow> fx_definition_t list \<Rightarrow> rid_fallback_graph_t option \<Rightarrow> bool
   \<Rightarrow> deps_resolver_t" where
  "new_deps_resolver_t p fs resolve_additional_deps setup_probe_config
       args fx_definitions root_framework_rid_fallback_graph is_framework_dependent =
     (let lowest_framework = int (length fx_definitions) - 1;
          (fx_deps, graph) =
            construct_fx_deps p fs args fx_definitions lowest_framework lowest_framework
              root_framework_rid_fallback_graph [];
          r = \<lparr> m_fx_definitions = fx_definitions,
                m_fx_deps = fx_deps,
                m_app_dir = app_root args,
                m_host_mode = host_mode args,
                m_managed_app = managed_application args,
                m_core_servicing = core_servicing args,
                m_coreclr_path = [],
                m_additional_deps =
                  resolve_additional_deps (additional_deps_serialized args) graph,
                m_probes = [],
                m_is_framework_dependent = is_framework_dependent,
                m_needs_file_existence_checks = False \<rparr>;
          (probes, needs_checks) = setup_probe_config args r
      in r \<lparr> m_probes := probes, m_needs_file_existence_checks := needs_checks \<rparr>)"

section \<open>The resolver engine\<close>

text \<open>
  The header declares \<open>resolve_tpa_list\<close>, \<open>resolve_probe_dirs\<close> and \<open>probe_deps_entry\<close> and
  defines none of them. The signatures (parameters and results) are those of the header;
  the bodies follow sections 4.3 and 7 of the specification.
\<close>

text \<open>
  Modelled from the spec: the file system and the bundle membership collaborator consulted by
  the per-entry probe (sections 4.3 and 6): an existence check on a path, and a membership
  lookup that answers whether a relative path is packaged and, if so, gives a virtual path.
\<close>

record probe_env_t =
  path_exists :: "string \<Rightarrow> bool"
  bundle_lookup :: "string \<Rightarrow> string option"

text \<open>
  Modelled from the spec: \<open>deps_json_t::get_entries\<close> is missing; a manifest holds an ordered
  sequence of typed entries, and a walk takes those of one asset kind in declared order.
\<close>

definition get_entries :: "asset_types \<Rightarrow> deps_json_t \<Rightarrow> deps_entry_t list" where
  "get_entries kind deps = filter (\<lambda>e. asset_type e = kind) (entries deps)"

text \<open>
  Modelled from the spec: the Framework Layer Stack (section 3), index 0 the application
  layer, last index the root framework. Each layer is the directory of its descriptor in
  \<open>m_fx_definitions\<close> and its manifest in \<open>m_fx_deps\<close> (corresponding indices).
\<close>

definition layer_stack :: "deps_resolver_t \<Rightarrow> (string \<times> deps_json_t) list" where
  "layer_stack r = zip (map fx_dir (m_fx_definitions r)) (m_fx_deps r)"

text \<open>
  Modelled from the spec: one candidate of the per-entry probe of \<open>probe_deps_entry\<close>, whose
  body is missing (section 4.3, "Per-entry probe"). A probe configuration is tried when its
  applicability includes the entry's asset kind. The bundle-virtual configuration asks the
  membership record and never touches the file system; its hit sets the found-in-bundle
  flag. Any other configuration offers the entry's relative path under its base directory
  and performs an existence check if it requires one, or if the resolver's
  \<open>m_needs_file_existence_checks\<close> asks for one on every probed path. The result is the
  candidate path and the found-in-bundle flag.
\<close>

definition probe_candidate ::
  "pal_t \<Rightarrow> probe_env_t \<Rightarrow> deps_resolver_t \<Rightarrow> deps_entry_t \<Rightarrow> probe_config_t
   \<Rightarrow> (string \<times> bool) option" where
  "probe_candidate p env r entry c =
     (if asset_type entry \<notin> set (applies_to c) then None
      else if probe_source c = BundleVirtual then
        (case bundle_lookup env (relative_path entry) of
           Some virtual_path \<Rightarrow> Some (virtual_path, True)
         | None \<Rightarrow> None)
      else
        (let candidate = append_path p (probe_dir c) (relative_path entry) in
         if (needs_existence_check c \<or> m_needs_file_existence_checks r)
            \<and> \<not> path_exists env candidate
         then None
         else Some (candidate, False)))"

text \<open>
  Modelled from the spec: the probe configurations in Probe Configuration Set order; the
  first success wins (section 4.3).
\<close>

fun probe_configs ::
  "pal_t \<Rightarrow> probe_env_t \<Rightarrow> deps_resolver_t \<Rightarrow> deps_entry_t \<Rightarrow> probe_config_t list
   \<Rightarrow> (string \<times> bool) option" where
  "probe_configs p env r entry [] = None"
| "probe_configs p env r entry (c # cs) =
     (case probe_candidate p env r entry c of
        Some hit \<Rightarrow> Some hit
      | None \<Rightarrow> probe_configs p env r entry cs)"

text \<open>
  Modelled from the spec: \<open>probe_deps_entry\<close>, whose body is missing (section 4.3). The
  candidates are tried in this order: (a) the entry's own declared relative path under its
  layer's directory, existence-checked when the resolver's \<open>m_needs_file_existence_checks\<close>
  is set; (b) the probe configurations in order. \<open>None\<close> is the resolution miss. The
  specification gives the parameter \<open>fx_level\<close> of the header no role.
\<close>

definition probe_deps_entry ::
  "pal_t \<Rightarrow> probe_env_t \<Rightarrow> deps_resolver_t \<Rightarrow> deps_entry_t \<Rightarrow> string \<Rightarrow> nat
   \<Rightarrow> (string \<times> bool) option" where
  "probe_deps_entry p env r entry deps_dir fx_level =
     (let candidate = append_path p deps_dir (relative_path entry) in
      if m_needs_file_existence_checks r \<and> \<not> path_exists env candidate then
        probe_configs p env r entry (m_probes r)
      else Some (candidate, False))"

text \<open>
  Modelled from the spec: the precedence walk shared by the resolution algorithms (section
  4.3): the layers from the application layer (index 0) to the root, and within each layer
  the entries of the wanted kind in declared order. A step that fails ends the whole walk.
\<close>

fun walk_entries ::
  "('s \<Rightarrow> deps_entry_t \<Rightarrow> error + 's) \<Rightarrow> 's \<Rightarrow> deps_entry_t list \<Rightarrow> error + 's" where
  "walk_entries step st [] = Inr st"
| "walk_entries step st (entry # rest) =
     (case step st entry of
        Inl err \<Rightarrow> Inl err
      | Inr st' \<Rightarrow> walk_entries step st' rest)"

fun walk_layers ::
  "(string \<Rightarrow> nat \<Rightarrow> 's \<Rightarrow> deps_entry_t \<Rightarrow> error + 's) \<Rightarrow> asset_types \<Rightarrow> nat
   \<Rightarrow> (string \<times> deps_json_t) list \<Rightarrow> 's \<Rightarrow> error + 's" where
  "walk_layers step kind fx_level [] st = Inr st"
| "walk_layers step kind fx_level ((deps_dir, deps) # rest) st =
     (case walk_entries (step deps_dir fx_level) st (get_entries kind deps) of
        Inl err \<Rightarrow> Inl err
      | Inr st' \<Rightarrow> walk_layers step kind (Suc fx_level) rest st')"



text \<open>
  Modelled from the spec: the output format, "append the resolved path to the output using
  the platform path-list separator": every path is followed by \<open>PATH_SEPARATOR\<close>.
\<close>

definition path_list :: "pal_t \<Rightarrow> string list \<Rightarrow> string" where
  "path_list p paths = concat (map (\<lambda>path. path @ [PATH_SEPARATOR p]) paths)"


text \<open>
  Modelled from the spec: \<open>get_directory\<close> is a helper declared outside the header; the
  containing directory of a path is the path up to and including its last directory
  separator.
\<close>

definition get_directory :: "pal_t \<Rightarrow> string \<Rightarrow> string" where
  "get_directory p path = rev (dropWhile (\<lambda>c. c \<noteq> DIR_SEPARATOR p) (rev path))"

text \<open>
  Modelled from the spec: the unit of deduplication of \<open>resolve_probe_dirs\<close> (section 4.3):
  the containing directory of the resolved path plus, for resource assets, the culture
  subdirectory.
\<close>

definition probe_dir_unit :: "pal_t \<Rightarrow> asset_types \<Rightarrow> deps_entry_t \<Rightarrow> string \<Rightarrow> string" where
  "probe_dir_unit p kind entry path =
     (case (kind, culture entry) of
        (resources, Some c) \<Rightarrow> append_path p (get_directory p path) c
      | _ \<Rightarrow> get_directory p path)"

text \<open>
  Modelled from the spec: the loop body of \<open>resolve_probe_dirs\<close>, whose body is missing
  (section 4.3, "Probe-directory list resolution"). The entry is probed; a miss is fatal
  (section 7: fatal for the application and framework layers; the header gives this
  function no tolerance parameter). On a hit the identity of the resolved entry is recorded
  in the Breadcrumb Set, and the entry's directory unit is appended unless the list built so
  far already holds it.
\<close>

definition probe_dirs_entry ::
  "pal_t \<Rightarrow> probe_env_t \<Rightarrow> deps_resolver_t \<Rightarrow> asset_types \<Rightarrow> string \<Rightarrow> nat
   \<Rightarrow> string list \<times> string set \<Rightarrow> deps_entry_t
   \<Rightarrow> error + string list \<times> string set" where
  "probe_dirs_entry p env r kind deps_dir fx_level st entry =
     (case st of (dirs, breadcrumb) \<Rightarrow>
        (case probe_deps_entry p env r entry deps_dir fx_level of
           None \<Rightarrow> Inl UnresolvableAsset
         | Some (candidate, found_in_bundle) \<Rightarrow>
             (let dir = probe_dir_unit p kind entry candidate;
                  breadcrumb' = insert (asset_name entry) breadcrumb
              in if dir \<in> set dirs then Inr (dirs, breadcrumb')
                 else Inr (dirs @ [dir], breadcrumb'))))"

text \<open>
  Modelled from the spec: the walk of \<open>resolve_probe_dirs\<close> for one asset kind (native or
  resource libraries), giving the directories in the order they were appended.
\<close>

definition resolve_probe_dirs_items ::
  "pal_t \<Rightarrow> probe_env_t \<Rightarrow> deps_resolver_t \<Rightarrow> asset_types \<Rightarrow> string set
   \<Rightarrow> error + string list \<times> string set" where
  "resolve_probe_dirs_items p env r kind breadcrumb =
     walk_layers (probe_dirs_entry p env r kind) kind 0 (layer_stack r) ([], breadcrumb)"

text \<open>
  Modelled from the spec: \<open>resolve_probe_dirs\<close>, whose body is missing; it takes and returns
  the content of \<open>*output\<close> and \<open>*breadcrumb\<close>.
\<close>

definition resolve_probe_dirs ::
  "pal_t \<Rightarrow> probe_env_t \<Rightarrow> deps_resolver_t \<Rightarrow> asset_types \<Rightarrow> string \<Rightarrow> string set
   \<Rightarrow> error + string \<times> string set" where
  "resolve_probe_dirs p env r kind output breadcrumb =
     (case resolve_probe_dirs_items p env r kind breadcrumb of
        Inl err \<Rightarrow> Inl err
      | Inr (dirs, breadcrumb') \<Rightarrow> Inr (output @ path_list p dirs, breadcrumb'))"

section \<open>Vocabulary for the properties of the walk\<close>

text \<open>
  The declarations a walk visits, in walk order: the layer's directory, the layer's index
  and the entry.
\<close>

fun walk_order ::
  "asset_types \<Rightarrow> nat \<Rightarrow> (string \<times> deps_json_t) list \<Rightarrow> (string \<times> nat \<times> deps_entry_t) list" where
  "walk_order kind fx_level [] = []"
| "walk_order kind fx_level ((deps_dir, deps) # rest) =
     map (\<lambda>entry. (deps_dir, fx_level, entry)) (get_entries kind deps)
       @ walk_order kind (Suc fx_level) rest"

text \<open>The same walk as \<open>walk_layers\<close>, over the declarations in walk order.\<close>

fun walk_flat ::
  "(string \<Rightarrow> nat \<Rightarrow> 's \<Rightarrow> deps_entry_t \<Rightarrow> error + 's) \<Rightarrow> 's
   \<Rightarrow> (string \<times> nat \<times> deps_entry_t) list \<Rightarrow> error + 's" where
  "walk_flat step st [] = Inr st"
| "walk_flat step st ((deps_dir, fx_level, entry) # rest) =
     (case step deps_dir fx_level st entry of
        Inl err \<Rightarrow> Inl err
      | Inr st' \<Rightarrow> walk_flat step st' rest)"

definition declared_name :: "string \<times> nat \<times> deps_entry_t \<Rightarrow> string" where
  "declared_name t = asset_name (snd (snd t))"

text \<open>A declaration is resolvable when the per-entry probe finds a satisfying candidate.\<close>

definition resolvable ::
  "pal_t \<Rightarrow> probe_env_t \<Rightarrow> deps_resolver_t \<Rightarrow> string \<times> nat \<times> deps_entry_t \<Rightarrow> bool" where
  "resolvable p env r t =
     (case t of (deps_dir, fx_level, entry) \<Rightarrow>
        probe_deps_entry p env r entry deps_dir fx_level \<noteq> None)"

text \<open>The resolved asset of a declaration: the entry paired with the path the probe finds.\<close>

definition resolved_asset ::
  "pal_t \<Rightarrow> probe_env_t \<Rightarrow> deps_resolver_t \<Rightarrow> string \<times> nat \<times> deps_entry_t
   \<Rightarrow> deps_resolved_asset_t" where
  "resolved_asset p env r t =
     (case t of (deps_dir, fx_level, entry) \<Rightarrow>
        \<lparr> asset = entry,
          resolved_path =
            (case probe_deps_entry p env r entry deps_dir fx_level of
               Some (candidate, found_in_bundle) \<Rightarrow> candidate
             | None \<Rightarrow> []) \<rparr>)"

text \<open>The directory unit a declaration contributes to the probe-directory list.\<close>

definition probe_dir_of ::
  "pal_t \<Rightarrow> probe_env_t \<Rightarrow> deps_resolver_t \<Rightarrow> asset_types \<Rightarrow> string \<times> nat \<times> deps_entry_t
   \<Rightarrow> string" where
  "probe_dir_of p env r kind t =
     probe_dir_unit p kind (snd (snd t)) (resolved_path (resolved_asset p env r t))"

text \<open>First-seen order: every element once, at the position of its first occurrence.\<close>

definition first_seen :: "'a list \<Rightarrow> 'a list" where
  "first_seen xs = rev (remdups (rev xs))"

section \<open>Example data\<close>

text \<open>Concrete inputs on which the properties below are exercised.\<close>

definition unix_pal :: pal_t where
  "unix_pal = \<lparr> DIR_SEPARATOR = CHR ''/'', PATH_SEPARATOR = CHR '':'' \<rparr>"

definition manifest :: "string \<Rightarrow> bool \<Rightarrow> bool \<Rightarrow> deps_json_t" where
  "manifest f on_disk parsed =
     \<lparr> deps_file = f, file_exists = on_disk, is_valid = parsed, entries = [],
       rid_fallback_graph = [] \<rparr>"

definition resolver_of ::
  "host_mode_t \<Rightarrow> string \<Rightarrow> deps_json_t list \<Rightarrow> deps_json_t list \<Rightarrow> deps_resolver_t" where
  "resolver_of mode app_dir fx_deps additional_deps =
     \<lparr> m_fx_definitions = [], m_fx_deps = fx_deps, m_app_dir = app_dir, m_host_mode = mode,
       m_managed_app = [], m_core_servicing = [], m_coreclr_path = [],
       m_additional_deps = additional_deps, m_probes = [],
       m_is_framework_dependent = True, m_needs_file_existence_checks = False \<rparr>"

definition compat_bundle :: "string \<Rightarrow> bundle_t" where
  "compat_bundle dir =
     \<lparr> is_single_file_bundle = True, is_netcoreapp3_compat_mode = True,
       extraction_path = dir \<rparr>"

definition no_bundle :: bundle_t where
  "no_bundle =
     \<lparr> is_single_file_bundle = False, is_netcoreapp3_compat_mode = False,
       extraction_path = [] \<rparr>"

definition mk_entry :: "string \<Rightarrow> asset_types \<Rightarrow> string \<Rightarrow> deps_entry_t" where
  "mk_entry n k rel =
     \<lparr> asset_name = n, asset_type = k, relative_path = rel, library_name = n,
       library_version = ''1.0.0'', culture = None \<rparr>"

definition mk_deps :: "string \<Rightarrow> deps_entry_t list \<Rightarrow> deps_json_t" where
  "mk_deps f es =
     \<lparr> deps_file = f, file_exists = True, is_valid = True, entries = es,
       rid_fallback_graph = [] \<rparr>"

text \<open>
  The end-to-end example of section 8 of the specification: the application layer declares
  Widgets, the root framework declares Widgets and Utils; two native libraries of the
  application share a directory. Existence checks are on.
\<close>

definition widgets_resolver :: deps_resolver_t where
  "widgets_resolver =
     \<lparr> m_fx_definitions = [\<lparr> fx_dir = ''app'', fx_name = ''App'' \<rparr>,
                            \<lparr> fx_dir = ''shared/Fx'', fx_name = ''Fx'' \<rparr>],
       m_fx_deps =
         [mk_deps ''app/App.deps.json''
            [mk_entry ''Widgets'' runtime ''Widgets.dll'',
             mk_entry ''libA'' native ''linux/libA.so'',
             mk_entry ''libB'' native ''linux/libB.so''],
          mk_deps ''shared/Fx/Fx.deps.json''
            [mk_entry ''Widgets'' runtime ''Widgets.dll'',
             mk_entry ''Utils'' runtime ''Utils.dll'',
             mk_entry ''libC'' native ''libC.so'']],
       m_app_dir = ''app'', m_host_mode = muxer, m_managed_app = ''app/App.dll'',
       m_core_servicing = [], m_coreclr_path = [], m_additional_deps = [], m_probes = [],
       m_is_framework_dependent = True, m_needs_file_existence_checks = True \<rparr>"

definition fs_of :: "string list \<Rightarrow> probe_env_t" where
  "fs_of files = \<lparr> path_exists = (\<lambda>path. path \<in> set files), bundle_lookup = (\<lambda>_. None) \<rparr>"

definition native_files :: "string list" where
  "native_files = [''app/linux/libA.so'', ''app/linux/libB.so'', ''shared/Fx/libC.so'']"

text \<open>A two-layer launch: manifest files with their own RID fallback lists.\<close>

definition two_layer_args :: arguments_t where
  "two_layer_args =
     \<lparr> host_mode = muxer, app_root = ''app'', deps_path = ''app/App.deps.json'',
       core_servicing = [], additional_deps_serialized = [],
       managed_application = ''app/App.dll'' \<rparr>"

definition two_layer_defs :: "fx_definition_t list" where
  "two_layer_defs =
     [\<lparr> fx_dir = ''app'', fx_name = ''App'' \<rparr>, \<lparr> fx_dir = ''shared/Fx'', fx_name = ''Fx'' \<rparr>]"

definition two_layer_fs :: "string \<Rightarrow> deps_json_file_t" where
  "two_layer_fs path =
     (if path = ''shared/Fx/Fx.deps.json'' then
        \<lparr> present = True, well_formed = True, declared_entries = [],
          declared_rid_fallback_graph = [''linux-x64'', ''linux'', ''any''] \<rparr>
      else
        \<lparr> present = True, well_formed = True, declared_entries = [],
          declared_rid_fallback_graph = [''osx''] \<rparr>)"

section \<open>Properties of \<open>valid\<close>\<close>

text \<open>
  One iteration of the first loop of \<open>valid\<close>, case by case, and the loop as a whole: it
  skips the layers that pass and stops at the first one that does not.
\<close>

lemma valid_fx_deps_end: "\<not> i < length fx \<Longrightarrow> valid_fx_deps fx i = None"
  by (simp add: valid_fx_deps.simps [of fx i])

lemma valid_fx_deps_pass:
  "i < length fx \<Longrightarrow> fx_layer_passes fx i \<Longrightarrow> valid_fx_deps fx i = valid_fx_deps fx (Suc i)"
  by (auto simp add: valid_fx_deps.simps [of fx i] fx_layer_passes_def)

lemma valid_fx_deps_missing:
  "i < length fx \<Longrightarrow> i \<noteq> 0 \<Longrightarrow> \<not> file_exists (fx ! i)
   \<Longrightarrow> valid_fx_deps fx i = Some (missing_manifest_message (fx ! i))"
  by (simp add: valid_fx_deps.simps [of fx i] missing_manifest_message_def)

lemma valid_fx_deps_malformed:
  "i < length fx \<Longrightarrow> i = 0 \<or> file_exists (fx ! i) \<Longrightarrow> \<not> is_valid (fx ! i)
   \<Longrightarrow> valid_fx_deps fx i = Some (parse_error_message (fx ! i))"
  by (auto simp add: valid_fx_deps.simps [of fx i] parse_error_message_def)

lemma valid_fx_deps_skip_passing:
  "i \<le> k \<Longrightarrow> k \<le> length fx \<Longrightarrow> (\<forall>j. i \<le> j \<and> j < k \<longrightarrow> fx_layer_passes fx j)
   \<Longrightarrow> valid_fx_deps fx i = valid_fx_deps fx k"
proof (induction "k - i" arbitrary: i)
  case 0
  then show ?case by simp
next
  case (Suc n)
  then have lt: "i < k" and ok: "fx_layer_passes fx i" by auto
  from lt Suc.prems have "i < length fx" by simp
  then have "valid_fx_deps fx i = valid_fx_deps fx (Suc i)"
    using ok by (rule valid_fx_deps_pass)
  also have "\<dots> = valid_fx_deps fx k"
    using Suc by (intro Suc.hyps(1)) auto
  finally show ?case .
qed

lemma valid_fx_deps_None_iff:
  "valid_fx_deps fx 0 = None \<longleftrightarrow> (\<forall>j < length fx. fx_layer_passes fx j)"
proof
  assume all: "\<forall>j < length fx. fx_layer_passes fx j"
  then have "valid_fx_deps fx 0 = valid_fx_deps fx (length fx)"
    by (intro valid_fx_deps_skip_passing) auto
  then show "valid_fx_deps fx 0 = None" by (simp add: valid_fx_deps_end)
next
  assume none: "valid_fx_deps fx 0 = None"
  show "\<forall>j < length fx. fx_layer_passes fx j"
  proof (rule ccontr)
    assume "\<not> (\<forall>j < length fx. fx_layer_passes fx j)"
    then obtain k where k: "k < length fx" "\<not> fx_layer_passes fx k"
      and least: "\<forall>j < k. \<not> (j < length fx \<and> \<not> fx_layer_passes fx j)"
      using exists_least_iff [of "\<lambda>j. j < length fx \<and> \<not> fx_layer_passes fx j"] by auto
    then have "valid_fx_deps fx 0 = valid_fx_deps fx k"
      by (intro valid_fx_deps_skip_passing) auto
    moreover have "valid_fx_deps fx k \<noteq> None"
      using k valid_fx_deps_missing [of k fx] valid_fx_deps_malformed [of k fx]
      by (auto simp: fx_layer_passes_def)
    ultimately show False using none by simp
  qed
qed

lemma valid_additional_deps_None_iff:
  "valid_additional_deps ads = None \<longleftrightarrow> (\<forall>a \<in> set ads. is_valid a)"
  by (induction ads) auto

lemma valid_additional_deps_first:
  "(\<forall>a \<in> set pre. is_valid a) \<Longrightarrow> \<not> is_valid a
   \<Longrightarrow> valid_additional_deps (pre @ a # post) = Some (parse_error_message a)"
  by (induction pre) (auto simp: parse_error_message_def)

lemma messages_differ: "missing_manifest_message d \<noteq> parse_error_message d'"
  by (simp add: missing_manifest_message_def parse_error_message_def)

text \<open>
  Claim C4. \<open>valid\<close> fails on the first failing manifest and reports that one only. With
  every layer below index \<open>k\<close> passing: a layer \<open>k \<noteq> 0\<close> whose file does not exist is
  reported with the missing-manifest message naming its path; a layer \<open>k\<close> whose file exists,
  or the application layer \<open>k = 0\<close> (exempt from the existence check), that failed to parse
  is reported with the parse message. With every layer passing, the first additional
  manifest that failed to parse is reported. When every check passes, \<open>errors\<close> is cleared
  and the result is success; and success is returned in no other case.
\<close>

theorem valid_fail_fast:
  "(k < length (m_fx_deps r) \<and> (\<forall>j < k. fx_layer_passes (m_fx_deps r) j)
      \<and> k \<noteq> 0 \<and> \<not> file_exists (m_fx_deps r ! k)
    \<longrightarrow> valid r errors = (False, missing_manifest_message (m_fx_deps r ! k)))
   \<and> (k < length (m_fx_deps r) \<and> (\<forall>j < k. fx_layer_passes (m_fx_deps r) j)
      \<and> (k = 0 \<or> file_exists (m_fx_deps r ! k)) \<and> \<not> is_valid (m_fx_deps r ! k)
    \<longrightarrow> valid r errors = (False, parse_error_message (m_fx_deps r ! k)))
   \<and> ((\<forall>j < length (m_fx_deps r). fx_layer_passes (m_fx_deps r) j)
      \<and> m_additional_deps r = pre @ a # post \<and> (\<forall>x \<in> set pre. is_valid x) \<and> \<not> is_valid a
    \<longrightarrow> valid r errors = (False, parse_error_message a))
   \<and> ((\<forall>j < length (m_fx_deps r). fx_layer_passes (m_fx_deps r) j)
      \<and> (\<forall>x \<in> set (m_additional_deps r). is_valid x)
    \<longrightarrow> valid r errors = (True, []))
   \<and> (fst (valid r errors) \<longleftrightarrow>
        (\<forall>j < length (m_fx_deps r). fx_layer_passes (m_fx_deps r) j)
        \<and> (\<forall>x \<in> set (m_additional_deps r). is_valid x))"
proof -
  let ?fx = "m_fx_deps r"
  have skip: "valid_fx_deps ?fx 0 = valid_fx_deps ?fx k"
    if "k < length ?fx" "\<forall>j < k. fx_layer_passes ?fx j"
    using that by (intro valid_fx_deps_skip_passing) auto
  have a: "valid r errors = (False, missing_manifest_message (?fx ! k))"
    if "k < length ?fx" "\<forall>j < k. fx_layer_passes ?fx j" "k \<noteq> 0" "\<not> file_exists (?fx ! k)"
    using that skip valid_fx_deps_missing [of k ?fx] by (simp add: valid_def)
  have b: "valid r errors = (False, parse_error_message (?fx ! k))"
    if "k < length ?fx" "\<forall>j < k. fx_layer_passes ?fx j" "k = 0 \<or> file_exists (?fx ! k)"
      "\<not> is_valid (?fx ! k)"
    using that skip valid_fx_deps_malformed [of k ?fx] by (simp add: valid_def)
  have c: "valid r errors = (False, parse_error_message a)"
    if "\<forall>j < length ?fx. fx_layer_passes ?fx j" "m_additional_deps r = pre @ a # post"
      "\<forall>x \<in> set pre. is_valid x" "\<not> is_valid a"
    using that valid_fx_deps_None_iff [of ?fx] valid_additional_deps_first [of pre a post]
    by (simp add: valid_def)
  have d: "valid r errors = (True, [])"
    if "\<forall>j < length ?fx. fx_layer_passes ?fx j" "\<forall>x \<in> set (m_additional_deps r). is_valid x"
    using that valid_fx_deps_None_iff [of ?fx]
      valid_additional_deps_None_iff [of "m_additional_deps r"]
    by (simp add: valid_def)
  have e: "fst (valid r errors) \<longleftrightarrow>
        (\<forall>j < length ?fx. fx_layer_passes ?fx j) \<and> (\<forall>x \<in> set (m_additional_deps r). is_valid x)"
    using valid_fx_deps_None_iff [of ?fx]
      valid_additional_deps_None_iff [of "m_additional_deps r"]
    by (auto simp add: valid_def split: option.splits)
  from a b c d e show ?thesis by blast
qed

text \<open>
  The example of section 8 of the specification: three layers, the manifest of layer 1
  absent and layer 2 malformed as well; only layer 1 is reported. Then an application
  manifest that is absent and malformed, a malformed additional manifest, and a valid stack.
\<close>

theorem valid_fail_fast_witness:
  "valid (resolver_of muxer ''app''
            [manifest ''app/App.deps.json'' False True,
             manifest ''fx1/Fx1.deps.json'' False True,
             manifest ''fx2/Fx2.deps.json'' True False] []) ''stale''
     = (False, ''A fatal error was encountered, missing dependencies manifest at: fx1/Fx1.deps.json'')
   \<and> valid (resolver_of muxer ''app'' [manifest ''app/App.deps.json'' False False] []) ''stale''
     = (False, ''An error occurred while parsing: app/App.deps.json'')
   \<and> valid (resolver_of muxer ''app'' [manifest ''app/App.deps.json'' False True]
            [manifest ''one.deps.json'' False True, manifest ''two.deps.json'' True False,
             manifest ''three.deps.json'' True False]) ''stale''
     = (False, ''An error occurred while parsing: two.deps.json'')
   \<and> valid (resolver_of muxer ''app''
            [manifest ''app/App.deps.json'' False True, manifest ''fx1/Fx1.deps.json'' True True]
            [manifest ''one.deps.json'' False True]) ''stale''
     = (True, [])"
proof -
  let ?r1 = "resolver_of muxer ''app''
            [manifest ''app/App.deps.json'' False True,
             manifest ''fx1/Fx1.deps.json'' False True,
             manifest ''fx2/Fx2.deps.json'' True False] []"
  let ?r2 = "resolver_of muxer ''app'' [manifest ''app/App.deps.json'' False False] []"
  let ?r3 = "resolver_of muxer ''app'' [manifest ''app/App.deps.json'' False True]
            [manifest ''one.deps.json'' False True, manifest ''two.deps.json'' True False,
             manifest ''three.deps.json'' True False]"
  let ?r4 = "resolver_of muxer ''app''
            [manifest ''app/App.deps.json'' False True, manifest ''fx1/Fx1.deps.json'' True True]
            [manifest ''one.deps.json'' False True]"
  have a: "valid ?r1 ''stale''
     = (False, ''A fatal error was encountered, missing dependencies manifest at: fx1/Fx1.deps.json'')"
    using valid_fail_fast [where k = 1 and r = ?r1 and errors = "''stale''"]
    by (simp add: resolver_of_def manifest_def fx_layer_passes_def missing_manifest_message_def)
  have b: "valid ?r2 ''stale'' = (False, ''An error occurred while parsing: app/App.deps.json'')"
    using valid_fail_fast [where k = 0 and r = ?r2 and errors = "''stale''"]
    by (simp add: resolver_of_def manifest_def fx_layer_passes_def parse_error_message_def)
  have c: "valid ?r3 ''stale'' = (False, ''An error occurred while parsing: two.deps.json'')"
    using valid_fail_fast [where r = ?r3 and errors = "''stale''"
        and pre = "[manifest ''one.deps.json'' False True]"
        and a = "manifest ''two.deps.json'' True False"
        and post = "[manifest ''three.deps.json'' True False]"]
    by (simp add: resolver_of_def manifest_def fx_layer_passes_def parse_error_message_def)
  have d: "valid ?r4 ''stale'' = (True, [])"
    using valid_fail_fast [where r = ?r4 and errors = "''stale''"]
    by (simp add: resolver_of_def manifest_def fx_layer_passes_def less_Suc_eq)
  from a b c d show ?thesis by (intro conjI)
qed

text \<open>
  Claim C10. \<open>valid\<close> checks the layers in index order and, within a layer other than the
  application layer, existence before parse validity: the first layer that does not pass
  decides the message; a framework manifest that is both missing and malformed is reported
  as missing, never as a parse error; when some layer does not pass, the additional
  manifests have no influence on the result; when every layer passes, the result is decided
  by the additional manifests in their order.
\<close>

theorem valid_check_order:
  "(k < length (m_fx_deps r) \<and> (\<forall>j < k. fx_layer_passes (m_fx_deps r) j)
      \<and> \<not> fx_layer_passes (m_fx_deps r) k
    \<longrightarrow> valid r errors =
          (False, if k \<noteq> 0 \<and> \<not> file_exists (m_fx_deps r ! k)
                  then missing_manifest_message (m_fx_deps r ! k)
                  else parse_error_message (m_fx_deps r ! k)))
   \<and> (k < length (m_fx_deps r) \<and> (\<forall>j < k. fx_layer_passes (m_fx_deps r) j)
      \<and> k \<noteq> 0 \<and> \<not> file_exists (m_fx_deps r ! k) \<and> \<not> is_valid (m_fx_deps r ! k)
    \<longrightarrow> valid r errors = (False, missing_manifest_message (m_fx_deps r ! k))
        \<and> snd (valid r errors) \<noteq> parse_error_message (m_fx_deps r ! k))
   \<and> (\<not> (\<forall>j < length (m_fx_deps r). fx_layer_passes (m_fx_deps r) j)
    \<longrightarrow> valid (r \<lparr> m_additional_deps := additional \<rparr>) errors = valid r errors)
   \<and> ((\<forall>j < length (m_fx_deps r). fx_layer_passes (m_fx_deps r) j)
    \<longrightarrow> valid r errors =
          (case valid_additional_deps (m_additional_deps r) of
             Some msg \<Rightarrow> (False, msg)
           | None \<Rightarrow> (True, [])))"
proof -
  let ?fx = "m_fx_deps r"
  have skip: "valid_fx_deps ?fx 0 = valid_fx_deps ?fx k"
    if "k < length ?fx" "\<forall>j < k. fx_layer_passes ?fx j"
    using that by (intro valid_fx_deps_skip_passing) auto
  have a: "valid r errors =
          (False, if k \<noteq> 0 \<and> \<not> file_exists (?fx ! k)
                  then missing_manifest_message (?fx ! k)
                  else parse_error_message (?fx ! k))"
    if k: "k < length ?fx" "\<forall>j < k. fx_layer_passes ?fx j" "\<not> fx_layer_passes ?fx k"
  proof (cases "k \<noteq> 0 \<and> \<not> file_exists (?fx ! k)")
    case True
    with k have "valid_fx_deps ?fx 0 = Some (missing_manifest_message (?fx ! k))"
      using skip valid_fx_deps_missing [of k ?fx] by simp
    with True show ?thesis by (simp add: valid_def)
  next
    case False
    with k have "k = 0 \<or> file_exists (?fx ! k)" "\<not> is_valid (?fx ! k)"
      by (auto simp add: fx_layer_passes_def)
    with k have "valid_fx_deps ?fx 0 = Some (parse_error_message (?fx ! k))"
      using skip valid_fx_deps_malformed [of k ?fx] by simp
    with False show ?thesis by (auto simp add: valid_def)
  qed
  have b: "valid r errors = (False, missing_manifest_message (?fx ! k))
        \<and> snd (valid r errors) \<noteq> parse_error_message (?fx ! k)"
    if "k < length ?fx" "\<forall>j < k. fx_layer_passes ?fx j" "k \<noteq> 0" "\<not> file_exists (?fx ! k)"
    using that skip valid_fx_deps_missing [of k ?fx] messages_differ
    by (simp add: valid_def)
  have c: "valid (r \<lparr> m_additional_deps := additional \<rparr>) errors = valid r errors"
    if "\<not> (\<forall>j < length ?fx. fx_layer_passes ?fx j)"
    using that valid_fx_deps_None_iff [of ?fx]
    by (auto simp add: valid_def split: option.splits)
  have d: "valid r errors =
          (case valid_additional_deps (m_additional_deps r) of
             Some msg \<Rightarrow> (False, msg)
           | None \<Rightarrow> (True, []))"
    if "\<forall>j < length ?fx. fx_layer_passes ?fx j"
    using that valid_fx_deps_None_iff [of ?fx] by (simp add: valid_def)
  from a b c d show ?thesis by blast
qed

text \<open>
  A framework manifest both missing and malformed, followed by another missing one and by a
  malformed additional manifest; and a valid stack with a malformed additional manifest.
\<close>

theorem valid_check_order_witness:
  "valid (resolver_of muxer ''app''
            [manifest ''app/App.deps.json'' True True,
             manifest ''fx1/Fx1.deps.json'' False False,
             manifest ''fx2/Fx2.deps.json'' False True]
            [manifest ''one.deps.json'' True False]) ''stale''
     = (False, ''A fatal error was encountered, missing dependencies manifest at: fx1/Fx1.deps.json'')
   \<and> valid (resolver_of muxer ''app''
            [manifest ''app/App.deps.json'' True True,
             manifest ''fx1/Fx1.deps.json'' False False,
             manifest ''fx2/Fx2.deps.json'' False True]
            [manifest ''one.deps.json'' True False] \<lparr> m_additional_deps := [] \<rparr>) ''stale''
     = valid (resolver_of muxer ''app''
            [manifest ''app/App.deps.json'' True True,
             manifest ''fx1/Fx1.deps.json'' False False,
             manifest ''fx2/Fx2.deps.json'' False True]
            [manifest ''one.deps.json'' True False]) ''stale''
   \<and> valid (resolver_of muxer ''app'' [manifest ''app/App.deps.json'' True True]
            [manifest ''one.deps.json'' True False]) ''stale''
     = (False, ''An error occurred while parsing: one.deps.json'')"
proof -
  let ?r = "resolver_of muxer ''app''
            [manifest ''app/App.deps.json'' True True,
             manifest ''fx1/Fx1.deps.json'' False False,
             manifest ''fx2/Fx2.deps.json'' False True]
            [manifest ''one.deps.json'' True False]"
  let ?r' = "resolver_of muxer ''app'' [manifest ''app/App.deps.json'' True True]
            [manifest ''one.deps.json'' True False]"
  have a: "valid ?r ''stale''
     = (False, ''A fatal error was encountered, missing dependencies manifest at: fx1/Fx1.deps.json'')"
    using valid_check_order [where k = 1 and r = ?r and errors = "''stale''"]
    by (simp add: resolver_of_def manifest_def fx_layer_passes_def missing_manifest_message_def)
  have "\<not> (\<forall>j < length (m_fx_deps ?r). fx_layer_passes (m_fx_deps ?r) j)"
    by (auto simp add: resolver_of_def manifest_def fx_layer_passes_def intro: exI [of _ 1])
  with valid_check_order [where r = ?r and errors = "''stale''" and additional = "[]"]
  have b: "valid (?r \<lparr> m_additional_deps := [] \<rparr>) ''stale'' = valid ?r ''stale''"
    by blast
  have c: "valid ?r' ''stale'' = (False, ''An error occurred while parsing: one.deps.json'')"
    using valid_check_order [where r = ?r' and errors = "''stale''"]
    by (simp add: resolver_of_def manifest_def fx_layer_passes_def)
  from a b c show ?thesis by (intro conjI)
qed

section \<open>Properties of \<open>get_app_dir\<close>\<close>

text \<open>
  Claim C5. Whenever \<open>get_app_dir\<close> returns a non-empty path, the path ends with the
  directory separator; a separator is appended only when the selected path does not already
  end with one, so a path that ends with a separator is returned unchanged.
\<close>

theorem get_app_dir_trailing_separator:
  "get_app_dir p b r = Inr path \<and> path \<noteq> [] \<longrightarrow>
     last path = DIR_SEPARATOR p
     \<and> (last (select_app_dir b r) = DIR_SEPARATOR p \<longrightarrow> path = select_app_dir b r)
     \<and> (last (select_app_dir b r) \<noteq> DIR_SEPARATOR p
          \<longrightarrow> path = select_app_dir b r @ [DIR_SEPARATOR p])"
  by (auto simp add: get_app_dir_def select_app_dir_def Let_def split: if_splits)

text \<open>
  An application root without and one with a trailing separator.
\<close>

theorem get_app_dir_trailing_separator_witness:
  "get_app_dir unix_pal no_bundle (resolver_of muxer ''/app'' [] []) = Inr ''/app/''
   \<and> last ''/app/'' = DIR_SEPARATOR unix_pal
   \<and> get_app_dir unix_pal no_bundle (resolver_of muxer ''/srv/'' [] []) = Inr ''/srv/''
   \<and> ''/srv/'' = select_app_dir no_bundle (resolver_of muxer ''/srv/'' [] [])"
proof -
  have h1: "get_app_dir unix_pal no_bundle (resolver_of muxer ''/app'' [] []) = Inr ''/app/''
      \<and> ''/app/'' \<noteq> []"
    by (simp add: get_app_dir_def select_app_dir_def resolver_of_def unix_pal_def)
  have h2: "get_app_dir unix_pal no_bundle (resolver_of muxer ''/srv/'' [] []) = Inr ''/srv/''
      \<and> ''/srv/'' \<noteq> []"
    by (simp add: get_app_dir_def select_app_dir_def resolver_of_def unix_pal_def)
  have l: "last (select_app_dir no_bundle (resolver_of muxer ''/srv/'' [] []))
      = DIR_SEPARATOR unix_pal"
    by (simp add: select_app_dir_def resolver_of_def unix_pal_def)
  from get_app_dir_trailing_separator [THEN mp, OF h1]
  have a: "last ''/app/'' = DIR_SEPARATOR unix_pal" by (rule conjunct1)
  from get_app_dir_trailing_separator [THEN mp, OF h2] l
  have b: "''/srv/'' = select_app_dir no_bundle (resolver_of muxer ''/srv/'' [] [])" by blast
  from h1 h2 a b show ?thesis by blast
qed

text \<open>
  Claim C6. In host mode \<open>libhost\<close> the result of \<open>get_app_dir\<close> is the empty string. In
  any other mode it is the configured application root, unless the mode is \<open>apphost\<close>, the
  process is a single-file bundle and the bundle runs in the netcoreapp3 compatibility
  mode: then it is the extraction directory of the bundle. The path returned is the
  selected one with the trailing-separator step of lines 164 to 170 applied.
\<close>

theorem get_app_dir_selection:
  "(m_host_mode r = libhost \<longrightarrow> get_app_dir p b r = Inr [])
   \<and> (m_host_mode r \<noteq> libhost
        \<and> \<not> (m_host_mode r = apphost \<and> is_single_file_bundle b \<and> is_netcoreapp3_compat_mode b)
        \<and> m_app_dir r \<noteq> []
      \<longrightarrow> get_app_dir p b r =
            Inr (if last (m_app_dir r) = DIR_SEPARATOR p then m_app_dir r
                 else m_app_dir r @ [DIR_SEPARATOR p]))
   \<and> (m_host_mode r = apphost \<and> is_single_file_bundle b \<and> is_netcoreapp3_compat_mode b
        \<and> extraction_path b \<noteq> []
      \<longrightarrow> get_app_dir p b r =
            Inr (if last (extraction_path b) = DIR_SEPARATOR p then extraction_path b
                 else extraction_path b @ [DIR_SEPARATOR p]))"
  by (auto simp add: get_app_dir_def select_app_dir_def Let_def)

text \<open>
  The three selections on concrete inputs; a bundle in compatibility mode changes nothing
  for a muxer host.
\<close>

theorem get_app_dir_selection_witness:
  "get_app_dir unix_pal (compat_bundle ''/tmp/x'') (resolver_of libhost ''/app'' [] []) = Inr []
   \<and> get_app_dir unix_pal (compat_bundle ''/tmp/x'') (resolver_of muxer ''/app'' [] [])
       = Inr ''/app/''
   \<and> get_app_dir unix_pal no_bundle (resolver_of apphost ''/app/'' [] []) = Inr ''/app/''
   \<and> get_app_dir unix_pal (compat_bundle ''/tmp/x'') (resolver_of apphost ''/app'' [] [])
       = Inr ''/tmp/x/''"
proof -
  have a: "get_app_dir unix_pal (compat_bundle ''/tmp/x'') (resolver_of libhost ''/app'' [] [])
      = Inr []"
    using get_app_dir_selection [where r = "resolver_of libhost ''/app'' [] []"]
    by (simp add: resolver_of_def)
  have b: "get_app_dir unix_pal (compat_bundle ''/tmp/x'') (resolver_of muxer ''/app'' [] [])
      = Inr ''/app/''"
    using get_app_dir_selection [where r = "resolver_of muxer ''/app'' [] []"
        and b = "compat_bundle ''/tmp/x''" and p = unix_pal]
    by (simp add: resolver_of_def unix_pal_def)
  have c: "get_app_dir unix_pal no_bundle (resolver_of apphost ''/app/'' [] []) = Inr ''/app/''"
    using get_app_dir_selection [where r = "resolver_of apphost ''/app/'' [] []"
        and b = no_bundle and p = unix_pal]
    by (simp add: resolver_of_def unix_pal_def no_bundle_def)
  have d: "get_app_dir unix_pal (compat_bundle ''/tmp/x'') (resolver_of apphost ''/app'' [] [])
      = Inr ''/tmp/x/''"
    using get_app_dir_selection [where r = "resolver_of apphost ''/app'' [] []"
        and b = "compat_bundle ''/tmp/x''" and p = unix_pal]
    by (simp add: resolver_of_def unix_pal_def compat_bundle_def)
  from a b c d show ?thesis by (intro conjI)
qed

text \<open>
  Claim C9, amended. \<open>get_app_dir\<close> fails with \<open>back()\<close> on an empty string exactly when the
  host mode is not \<open>libhost\<close> and the selected path is empty; it returns a path exactly when
  the mode is \<open>libhost\<close> or the selected path is non-empty. The selected path is the
  extraction path for an \<open>apphost\<close> single-file bundle in compatibility mode and the
  configured application root otherwise. So an empty application root is the error branch in
  every mode other than \<open>libhost\<close> in which the application root is the selected path.
\<close>

theorem get_app_dir_total_iff:
  "(get_app_dir p b r = Inl EmptyStringBack \<longleftrightarrow>
      m_host_mode r \<noteq> libhost \<and> select_app_dir b r = [])
   \<and> ((\<exists>path. get_app_dir p b r = Inr path) \<longleftrightarrow>
      m_host_mode r = libhost \<or> select_app_dir b r \<noteq> [])
   \<and> select_app_dir b r =
       (if m_host_mode r = apphost \<and> is_single_file_bundle b \<and> is_netcoreapp3_compat_mode b
        then extraction_path b else m_app_dir r)
   \<and> (m_host_mode r \<noteq> libhost \<and> m_app_dir r = []
        \<and> \<not> (m_host_mode r = apphost \<and> is_single_file_bundle b \<and> is_netcoreapp3_compat_mode b)
      \<longrightarrow> get_app_dir p b r = Inl EmptyStringBack)"
  by (auto simp add: get_app_dir_def select_app_dir_def Let_def)

text \<open>
  The error branch on concrete inputs: an empty application root under a muxer host, and an
  empty extraction path under an \<open>apphost\<close> bundle in compatibility mode.
\<close>

theorem get_app_dir_total_iff_witness:
  "get_app_dir unix_pal no_bundle (resolver_of muxer [] [] []) = Inl EmptyStringBack
   \<and> get_app_dir unix_pal (compat_bundle []) (resolver_of apphost ''/app'' [] [])
       = Inl EmptyStringBack"
proof -
  have a: "get_app_dir unix_pal no_bundle (resolver_of muxer [] [] []) = Inl EmptyStringBack"
    using get_app_dir_total_iff [where r = "resolver_of muxer [] [] []" and b = no_bundle
        and p = unix_pal]
    by (simp add: resolver_of_def no_bundle_def)
  have b: "get_app_dir unix_pal (compat_bundle []) (resolver_of apphost ''/app'' [] [])
       = Inl EmptyStringBack"
    using get_app_dir_total_iff [where r = "resolver_of apphost ''/app'' [] []"
        and b = "compat_bundle []" and p = unix_pal]
    by (simp add: resolver_of_def compat_bundle_def)
  from a b show ?thesis by (intro conjI)
qed

text \<open>
  The claim as stated says that an empty configured application root reaches the error
  branch in every host mode other than \<open>libhost\<close>. For an \<open>apphost\<close> single-file bundle in
  compatibility mode the extraction path replaces the application root before the
  separator step, and the call returns.
\<close>

theorem empty_app_root_counterexample:
  "m_host_mode (resolver_of apphost [] [] []) \<noteq> libhost
   \<and> m_app_dir (resolver_of apphost [] [] []) = []
   \<and> get_app_dir unix_pal (compat_bundle ''/tmp/x'') (resolver_of apphost [] [] [])
       = Inr ''/tmp/x/''"
  by (simp add: get_app_dir_def select_app_dir_def resolver_of_def compat_bundle_def unix_pal_def)

section \<open>Properties of the constructor\<close>

text \<open>
  The loop of the constructor: with a RID fallback list at hand every remaining layer is
  built with it; with none, the root is built first and its list is used for the rest.
\<close>

lemma construct_fx_deps_given:
  "i + 1 = int n \<Longrightarrow>
   construct_fx_deps p fs args defs lowest i (Some g) acc =
     (map (\<lambda>j. new_deps_json_t fs True (layer_deps_file p args defs (int j)) (Some g)) [0..<n]
        @ acc, Some g)"
proof (induction n arbitrary: i acc)
  case 0
  then show ?case by (subst construct_fx_deps.simps) simp
next
  case (Suc n)
  then have i: "i = int n" by simp
  have "construct_fx_deps p fs args defs lowest i (Some g) acc =
      construct_fx_deps p fs args defs lowest (i - 1) (Some g)
        (new_deps_json_t fs True (layer_deps_file p args defs i) (Some g) # acc)"
    using i by (subst construct_fx_deps.simps) (simp add: Let_def)
  also have "\<dots> =
      (map (\<lambda>j. new_deps_json_t fs True (layer_deps_file p args defs (int j)) (Some g)) [0..<n]
        @ new_deps_json_t fs True (layer_deps_file p args defs i) (Some g) # acc, Some g)"
    using i by (intro Suc.IH) simp
  finally show ?case using i by simp
qed

lemma construct_fx_deps_root:
  "construct_fx_deps p fs args defs (int n) (int n) None [] =
     (map (\<lambda>j. new_deps_json_t fs True (layer_deps_file p args defs (int j))
               (Some (declared_rid_fallback_graph (fs (layer_deps_file p args defs (int n))))))
          [0..<n]
        @ [new_deps_json_t fs False (layer_deps_file p args defs (int n)) None],
      Some (declared_rid_fallback_graph (fs (layer_deps_file p args defs (int n)))))"
proof -
  let ?d = "new_deps_json_t fs False (layer_deps_file p args defs (int n)) None"
  have g: "rid_fallback_graph ?d = declared_rid_fallback_graph (fs (layer_deps_file p args defs (int n)))"
    by (simp add: new_deps_json_t_def)
  have "construct_fx_deps p fs args defs (int n) (int n) None [] =
      construct_fx_deps p fs args defs (int n) (int n - 1) (Some (rid_fallback_graph ?d)) [?d]"
    by (subst construct_fx_deps.simps) (simp add: Let_def)
  also have "\<dots> = (map (\<lambda>j. new_deps_json_t fs True (layer_deps_file p args defs (int j))
               (Some (rid_fallback_graph ?d))) [0..<n] @ [?d], Some (rid_fallback_graph ?d))"
    by (intro construct_fx_deps_given) simp
  finally show ?thesis unfolding g .
qed

lemma construct_fx_deps_empty:
  "construct_fx_deps p fs args defs (-1) (-1) g [] = ([], g)"
  by (subst construct_fx_deps.simps) simp

text \<open>
  Claim C2. After construction there is one manifest object per layer, each loaded from the
  manifest path of its layer. If no RID fallback list was supplied, the root (last) layer
  uses the list its own manifest declares and every layer uses the list of the root; if a
  list was supplied, every layer, the root included, uses the supplied list.
\<close>

theorem rid_fallback_propagation:
  "length (m_fx_deps (new_deps_resolver_t p fs rad spc args defs graph is_fd)) = length defs
   \<and> (\<forall>i < length defs.
        deps_file (m_fx_deps (new_deps_resolver_t p fs rad spc args defs graph is_fd) ! i)
          = layer_deps_file p args defs (int i))
   \<and> (graph = None \<and> defs \<noteq> [] \<longrightarrow>
        rid_fallback_graph (last (m_fx_deps (new_deps_resolver_t p fs rad spc args defs graph is_fd)))
          = declared_rid_fallback_graph
              (fs (deps_file (last (m_fx_deps
                 (new_deps_resolver_t p fs rad spc args defs graph is_fd)))))
        \<and> (\<forall>d \<in> set (m_fx_deps (new_deps_resolver_t p fs rad spc args defs graph is_fd)).
             rid_fallback_graph d =
               rid_fallback_graph
                 (last (m_fx_deps (new_deps_resolver_t p fs rad spc args defs graph is_fd)))))
   \<and> (\<forall>g. graph = Some g \<longrightarrow>
        (\<forall>d \<in> set (m_fx_deps (new_deps_resolver_t p fs rad spc args defs graph is_fd)).
           rid_fallback_graph d = g))"
proof -
  let ?r = "new_deps_resolver_t p fs rad spc args defs graph is_fd"
  let ?lowest = "int (length defs) - 1"
  have fx: "m_fx_deps ?r = fst (construct_fx_deps p fs args defs ?lowest ?lowest graph [])"
    by (simp add: new_deps_resolver_t_def Let_def split: prod.splits)
  show ?thesis
  proof (cases graph)
    case (Some g)
    have "construct_fx_deps p fs args defs ?lowest ?lowest (Some g) [] =
        (map (\<lambda>j. new_deps_json_t fs True (layer_deps_file p args defs (int j)) (Some g))
           [0..<length defs] @ [], Some g)"
      by (intro construct_fx_deps_given) simp
    with fx Some have "m_fx_deps ?r =
        map (\<lambda>j. new_deps_json_t fs True (layer_deps_file p args defs (int j)) (Some g))
          [0..<length defs]"
      by simp
    with Some show ?thesis by (auto simp add: new_deps_json_t_def)
  next
    case None
    show ?thesis
    proof (cases defs rule: rev_cases)
      case Nil
      with fx None show ?thesis by (simp add: construct_fx_deps_empty)
    next
      case (snoc defs' root)
      let ?n = "length defs'"
      let ?root_file = "layer_deps_file p args defs (int ?n)"
      let ?g = "declared_rid_fallback_graph (fs ?root_file)"
      from snoc have low: "?lowest = int ?n" by simp
      have "m_fx_deps ?r =
          map (\<lambda>j. new_deps_json_t fs True (layer_deps_file p args defs (int j)) (Some ?g))
            [0..<?n] @ [new_deps_json_t fs False ?root_file None]"
        using fx None low by (simp add: construct_fx_deps_root)
      with None snoc show ?thesis
        by (auto simp add: new_deps_json_t_def nth_append less_Suc_eq)
    qed
  qed
qed

text \<open>
  A two-layer stack: without a supplied list both layers end up with the list declared by
  the root manifest, with a supplied list both use that one.
\<close>

theorem rid_fallback_propagation_witness:
  "map rid_fallback_graph
     (m_fx_deps (new_deps_resolver_t unix_pal two_layer_fs (\<lambda>s g. [])
        (\<lambda>args r. ([], False)) two_layer_args two_layer_defs None True))
     = [[''linux-x64'', ''linux'', ''any''], [''linux-x64'', ''linux'', ''any'']]
   \<and> map rid_fallback_graph
     (m_fx_deps (new_deps_resolver_t unix_pal two_layer_fs (\<lambda>s g. [])
        (\<lambda>args r. ([], False)) two_layer_args two_layer_defs (Some [''win-x64'', ''win'']) True))
     = [[''win-x64'', ''win''], [''win-x64'', ''win'']]"
proof -
  let ?r = "new_deps_resolver_t unix_pal two_layer_fs (\<lambda>s g. [])
        (\<lambda>args r. ([], False)) two_layer_args two_layer_defs None True"
  let ?r' = "new_deps_resolver_t unix_pal two_layer_fs (\<lambda>s g. [])
        (\<lambda>args r. ([], False)) two_layer_args two_layer_defs (Some [''win-x64'', ''win'']) True"
  note T = rid_fallback_propagation [where p = unix_pal and fs = two_layer_fs
      and rad = "\<lambda>s g. []" and spc = "\<lambda>args r. ([], False)" and args = two_layer_args
      and defs = two_layer_defs and is_fd = True]
  have two: "map f xs = [v, v]" if "length xs = 2" "\<forall>d \<in> set xs. f d = v"
    for f :: "deps_json_t \<Rightarrow> string list" and xs v
  proof -
    from that(1) obtain a b where "xs = [a, b]"
      by (cases xs; cases "tl xs") auto
    with that(2) show ?thesis by simp
  qed
  from T [where graph = None] have len: "length (m_fx_deps ?r) = 2"
    by (simp add: two_layer_defs_def)
  then have last: "last (m_fx_deps ?r) = m_fx_deps ?r ! 1"
    by (cases "m_fx_deps ?r") (auto simp add: last_conv_nth)
  have path: "layer_deps_file unix_pal two_layer_args two_layer_defs (int 1)
      = ''shared/Fx/Fx.deps.json''"
    by (simp add: layer_deps_file_def get_fx_deps_def append_path_def two_layer_defs_def
        unix_pal_def)
  from T [where graph = None] have "deps_file (m_fx_deps ?r ! 1)
      = layer_deps_file unix_pal two_layer_args two_layer_defs (int 1)"
    by (simp add: two_layer_defs_def)
  with last path have root_file: "deps_file (last (m_fx_deps ?r)) = ''shared/Fx/Fx.deps.json''"
    by (simp only:)
  from T [where graph = None] have "\<forall>d \<in> set (m_fx_deps ?r).
      rid_fallback_graph d
        = declared_rid_fallback_graph (two_layer_fs (deps_file (last (m_fx_deps ?r))))"
    by (simp add: two_layer_defs_def)
  then have "\<forall>d \<in> set (m_fx_deps ?r). rid_fallback_graph d = [''linux-x64'', ''linux'', ''any'']"
    by (simp add: root_file two_layer_fs_def)
  with len have a: "map rid_fallback_graph (m_fx_deps ?r)
      = [[''linux-x64'', ''linux'', ''any''], [''linux-x64'', ''linux'', ''any'']]"
    by (rule two)
  from T [where graph = "Some [''win-x64'', ''win'']"]
  have len': "length (m_fx_deps ?r') = 2"
    by (simp add: two_layer_defs_def)
  from T [where graph = "Some [''win-x64'', ''win'']"]
  have "\<forall>d \<in> set (m_fx_deps ?r'). rid_fallback_graph d = [''win-x64'', ''win'']"
    by simp
  with len' have b: "map rid_fallback_graph (m_fx_deps ?r')
      = [[''win-x64'', ''win''], [''win-x64'', ''win'']]"
    by (rule two)
  from a b show ?thesis by (intro conjI)
qed

section \<open>Properties of the managed-library resolution\<close>

text \<open>
  The nested walk over layers and entries is the walk over the declarations in walk order.
\<close>

lemma walk_flat_append:
  "walk_flat step st (ts @ us) =
     (case walk_flat step st ts of Inl err \<Rightarrow> Inl err | Inr st' \<Rightarrow> walk_flat step st' us)"
  by (induction ts arbitrary: st) (auto split: sum.splits)

lemma walk_entries_flat:
  "walk_entries (step deps_dir fx_level) st es =
     walk_flat step st (map (\<lambda>entry. (deps_dir, fx_level, entry)) es)"
  by (induction es arbitrary: st) (auto split: sum.splits)

lemma walk_layers_flat:
  "walk_layers step kind fx_level stack st = walk_flat step st (walk_order kind fx_level stack)"
  by (induction stack arbitrary: fx_level st)
     (auto simp: walk_flat_append walk_entries_flat split: sum.splits)














section \<open>Properties of the probe-directory resolution\<close>

text \<open>
  First-seen order, the two cases of a step of the probe-directory walk, and what the walk
  as a whole produces.
\<close>

lemma first_seen_Nil: "first_seen [] = []"
  by (simp add: first_seen_def)

lemma first_seen_Cons: "first_seen (x # xs) = x # filter (\<lambda>y. y \<noteq> x) (first_seen xs)"
proof -
  have "remdups (ys @ [x]) = filter (\<lambda>y. y \<noteq> x) (remdups ys) @ [x]" for ys
    by (induction ys) auto
  then show ?thesis
    by (simp add: first_seen_def rev_filter)
qed

lemma distinct_first_seen: "distinct (first_seen xs)"
  by (simp add: first_seen_def)

lemma set_first_seen: "set (first_seen xs) = set xs"
  by (simp add: first_seen_def)

lemma probe_dirs_entry_miss:
  "\<not> resolvable p env r (deps_dir, fx_level, entry) \<Longrightarrow>
   probe_dirs_entry p env r kind deps_dir fx_level st entry = Inl UnresolvableAsset"
  by (cases st; cases "probe_deps_entry p env r entry deps_dir fx_level")
     (simp_all add: probe_dirs_entry_def resolvable_def)

lemma probe_dirs_entry_hit:
  "resolvable p env r (deps_dir, fx_level, entry) \<Longrightarrow>
   probe_dirs_entry p env r kind deps_dir fx_level (dirs, breadcrumb) entry =
     Inr (if probe_dir_of p env r kind (deps_dir, fx_level, entry) \<in> set dirs then dirs
          else dirs @ [probe_dir_of p env r kind (deps_dir, fx_level, entry)],
          insert (asset_name entry) breadcrumb)"
  by (auto simp add: probe_dirs_entry_def resolvable_def resolved_asset_def probe_dir_of_def
      Let_def split: option.splits)

lemma dirs_walk:
  "walk_flat (probe_dirs_entry p env r kind) (acc, seen) ts = Inr (dirs, bc) \<Longrightarrow>
   (\<forall>t \<in> set ts. resolvable p env r t)
   \<and> dirs = acc @ filter (\<lambda>d. d \<notin> set acc) (first_seen (map (probe_dir_of p env r kind) ts))
   \<and> bc = seen \<union> declared_name ` set ts"
proof (induction ts arbitrary: acc seen)
  case Nil
  then show ?case by (simp add: first_seen_Nil)
next
  case (Cons t ts)
  obtain deps_dir fx_level entry where t: "t = (deps_dir, fx_level, entry)" by (cases t)
  have name_t: "declared_name t = asset_name entry" by (simp add: t declared_name_def)
  let ?d = "probe_dir_of p env r kind t"
  let ?fs = "first_seen (map (probe_dir_of p env r kind) ts)"
  have res: "resolvable p env r t"
  proof (rule ccontr)
    assume "\<not> resolvable p env r t"
    with Cons.prems t show False by (simp add: probe_dirs_entry_miss)
  qed
  show ?case
  proof (cases "?d \<in> set acc")
    case True
    with Cons.prems t res have
      "walk_flat (probe_dirs_entry p env r kind) (acc, insert (asset_name entry) seen) ts
         = Inr (dirs, bc)"
      by (simp add: probe_dirs_entry_hit)
    from Cons.IH [OF this] have ih: "\<forall>t \<in> set ts. resolvable p env r t"
      "dirs = acc @ filter (\<lambda>d. d \<notin> set acc) ?fs"
      "bc = insert (asset_name entry) seen \<union> declared_name ` set ts" by auto
    have "filter (\<lambda>d. d \<notin> set acc) (filter (\<lambda>y. y \<noteq> ?d) ?fs)
        = filter (\<lambda>d. d \<notin> set acc) ?fs"
      using True by (auto intro: filter_cong)
    with ih True res name_t show ?thesis by (simp add: first_seen_Cons)
  next
    case False
    with Cons.prems t res have
      "walk_flat (probe_dirs_entry p env r kind) (acc @ [?d], insert (asset_name entry) seen) ts
         = Inr (dirs, bc)"
      by (simp add: probe_dirs_entry_hit)
    from Cons.IH [OF this] have ih: "\<forall>t \<in> set ts. resolvable p env r t"
      "dirs = (acc @ [?d]) @ filter (\<lambda>d. d \<notin> set (acc @ [?d])) ?fs"
      "bc = insert (asset_name entry) seen \<union> declared_name ` set ts" by auto
    have "filter (\<lambda>d. d \<notin> set (acc @ [?d])) ?fs
        = filter (\<lambda>d. d \<notin> set acc) (filter (\<lambda>y. y \<noteq> ?d) ?fs)"
      by (auto intro: filter_cong)
    with ih False res name_t show ?thesis by (simp add: first_seen_Cons)
  qed
qed

lemma walk_order_member:
  "i < length stack \<Longrightarrow> entry \<in> set (get_entries kind (snd (stack ! i))) \<Longrightarrow>
   (fst (stack ! i), fx_level + i, entry) \<in> set (walk_order kind fx_level stack)"
proof (induction stack arbitrary: i fx_level)
  case Nil
  then show ?case by simp
next
  case (Cons l stack)
  obtain deps_dir deps where l: "l = (deps_dir, deps)" by (cases l)
  show ?case
  proof (cases i)
    case 0
    with Cons.prems l show ?thesis by auto
  next
    case (Suc j)
    with Cons.prems have "(fst (stack ! j), Suc fx_level + j, entry)
        \<in> set (walk_order kind (Suc fx_level) stack)"
      by (intro Cons.IH) auto
    with Suc l show ?thesis by simp
  qed
qed

lemma count_list_distinct: "distinct xs \<Longrightarrow> x \<in> set xs \<Longrightarrow> count_list xs x = 1"
  by (induction xs) (auto simp: count_list_0_iff)

text \<open>
  Claim C7. For a successful probe-directory resolution of one asset kind:
  \<open>resolve_probe_dirs\<close> appends the directories to the output; no directory occurs twice;
  the directories are those of the declarations in walk order, each at the position of its
  first occurrence; and two entries of the same layer with the same directory unit
  contribute exactly one occurrence of that directory.
\<close>

theorem probe_dirs_dedup:
  "resolve_probe_dirs_items p env r kind seen = Inr (dirs, bc) \<longrightarrow>
     resolve_probe_dirs p env r kind outp seen = Inr (outp @ path_list p dirs, bc)
     \<and> distinct dirs
     \<and> dirs = first_seen (map (probe_dir_of p env r kind) (walk_order kind 0 (layer_stack r)))
     \<and> (\<forall>i < length (layer_stack r).
          \<forall>e1 \<in> set (get_entries kind (snd (layer_stack r ! i))).
          \<forall>e2 \<in> set (get_entries kind (snd (layer_stack r ! i))).
            probe_dir_of p env r kind (fst (layer_stack r ! i), i, e1)
              = probe_dir_of p env r kind (fst (layer_stack r ! i), i, e2)
            \<longrightarrow> count_list dirs (probe_dir_of p env r kind (fst (layer_stack r ! i), i, e1)) = 1)"
proof
  assume ok: "resolve_probe_dirs_items p env r kind seen = Inr (dirs, bc)"
  let ?ts = "walk_order kind 0 (layer_stack r)"
  from ok have "walk_flat (probe_dirs_entry p env r kind) ([], seen) ?ts = Inr (dirs, bc)"
    by (simp add: resolve_probe_dirs_items_def walk_layers_flat)
  from dirs_walk [OF this]
  have dirs: "dirs = first_seen (map (probe_dir_of p env r kind) ?ts)" by simp
  then have dist: "distinct dirs" by (simp add: distinct_first_seen)
  have one: "count_list dirs (probe_dir_of p env r kind (fst (layer_stack r ! i), i, e1)) = 1"
    if "i < length (layer_stack r)" "e1 \<in> set (get_entries kind (snd (layer_stack r ! i)))"
    for i e1
  proof -
    from that have "(fst (layer_stack r ! i), 0 + i, e1) \<in> set ?ts"
      by (rule walk_order_member)
    then have "probe_dir_of p env r kind (fst (layer_stack r ! i), i, e1) \<in> set dirs"
      unfolding dirs set_first_seen by auto
    with dist show ?thesis by (rule count_list_distinct)
  qed
  from ok have "resolve_probe_dirs p env r kind outp seen = Inr (outp @ path_list p dirs, bc)"
    by (simp add: resolve_probe_dirs_def)
  with dist dirs one show
    "resolve_probe_dirs p env r kind outp seen = Inr (outp @ path_list p dirs, bc)
     \<and> distinct dirs
     \<and> dirs = first_seen (map (probe_dir_of p env r kind) (walk_order kind 0 (layer_stack r)))
     \<and> (\<forall>i < length (layer_stack r).
          \<forall>e1 \<in> set (get_entries kind (snd (layer_stack r ! i))).
          \<forall>e2 \<in> set (get_entries kind (snd (layer_stack r ! i))).
            probe_dir_of p env r kind (fst (layer_stack r ! i), i, e1)
              = probe_dir_of p env r kind (fst (layer_stack r ! i), i, e2)
            \<longrightarrow> count_list dirs (probe_dir_of p env r kind (fst (layer_stack r ! i), i, e1)) = 1)"
    by blast
qed

text \<open>
  Two native libraries of the application layer share the directory \<open>app/linux/\<close>; the
  list holds it once, before the directory of the framework's library.
\<close>

theorem probe_dirs_dedup_witness:
  "resolve_probe_dirs_items unix_pal (fs_of native_files) widgets_resolver native {}
     = Inr ([''app/linux/'', ''shared/Fx/''], {''libA'', ''libB'', ''libC''})
   \<and> resolve_probe_dirs unix_pal (fs_of native_files) widgets_resolver native [] {}
     = Inr (''app/linux/:shared/Fx/:'', {''libA'', ''libB'', ''libC''})
   \<and> probe_dir_of unix_pal (fs_of native_files) widgets_resolver native
        (''app'', 0, mk_entry ''libA'' native ''linux/libA.so'')
      = probe_dir_of unix_pal (fs_of native_files) widgets_resolver native
        (''app'', 0, mk_entry ''libB'' native ''linux/libB.so'')
   \<and> count_list [''app/linux/'', ''shared/Fx/'']
        (probe_dir_of unix_pal (fs_of native_files) widgets_resolver native
          (''app'', 0, mk_entry ''libA'' native ''linux/libA.so'')) = 1"
proof -
  let ?env = "fs_of native_files"
  let ?a = "mk_entry ''libA'' native ''linux/libA.so''"
  let ?b = "mk_entry ''libB'' native ''linux/libB.so''"
  have h: "resolve_probe_dirs_items unix_pal ?env widgets_resolver native {}
     = Inr ([''app/linux/'', ''shared/Fx/''], {''libA'', ''libB'', ''libC''})"
    by code_simp
  note T = probe_dirs_dedup [where outp = "[]", THEN mp, OF h]
  from T have out: "resolve_probe_dirs unix_pal ?env widgets_resolver native [] {}
     = Inr (''app/linux/:shared/Fx/:'', {''libA'', ''libB'', ''libC''})"
    by (simp add: path_list_def unix_pal_def)
  have stack: "0 < length (layer_stack widgets_resolver)"
    "fst (layer_stack widgets_resolver ! 0) = ''app''"
    "?a \<in> set (get_entries native (snd (layer_stack widgets_resolver ! 0)))"
    "?b \<in> set (get_entries native (snd (layer_stack widgets_resolver ! 0)))"
    by (simp_all add: layer_stack_def widgets_resolver_def get_entries_def mk_deps_def mk_entry_def)
  have same: "probe_dir_of unix_pal ?env widgets_resolver native (''app'', 0, ?a)
      = probe_dir_of unix_pal ?env widgets_resolver native (''app'', 0, ?b)"
    by code_simp
  from T have "\<forall>i < length (layer_stack widgets_resolver).
          \<forall>e1 \<in> set (get_entries native (snd (layer_stack widgets_resolver ! i))).
          \<forall>e2 \<in> set (get_entries native (snd (layer_stack widgets_resolver ! i))).
            probe_dir_of unix_pal ?env widgets_resolver native
                (fst (layer_stack widgets_resolver ! i), i, e1)
              = probe_dir_of unix_pal ?env widgets_resolver native
                (fst (layer_stack widgets_resolver ! i), i, e2)
            \<longrightarrow> count_list [''app/linux/'', ''shared/Fx/'']
                  (probe_dir_of unix_pal ?env widgets_resolver native
                    (fst (layer_stack widgets_resolver ! i), i, e1)) = 1"
    by blast
  with stack same have one: "count_list [''app/linux/'', ''shared/Fx/'']
        (probe_dir_of unix_pal ?env widgets_resolver native (''app'', 0, ?a)) = 1"
    by metis
  from h out same one show ?thesis by (intro conjI)
qed

end
